theory Spec2Isabelle
  imports Complex_Main
begin

section \<open>Python exceptions\<close>

text \<open>
  Every raise of the modelled code is a value of \<open>error\<close>. \<open>TaskError\<close>,
  \<open>RuntimeError\<close>, \<open>NameError\<close>, \<open>AttributeError\<close> and \<open>ZeroDivisionError\<close> are
  the classes the code itself raises (explicitly or through the interpreter);
  \<open>External c\<close> is an exception of class \<open>c\<close> raised by a collaborator outside
  the repository (the butler, the PSF factory, the matcher, the warper, the
  zero-point scaler, the schema). All of these derive from Python's \<open>Exception\<close>.
  \<open>KeyboardInterrupt\<close> stands for the exceptions that derive from
  \<open>BaseException\<close> only, which \<open>except Exception\<close> does not catch.
\<close>

datatype error =
    TaskError string
  | RuntimeError string
  | NameError string
  | AttributeError string
  | ZeroDivisionError
  | External string
  | KeyboardInterrupt

fun isException :: "error \<Rightarrow> bool" where
  "isException KeyboardInterrupt = False"
| "isException _ = True"

section \<open>processCoadd.py: ProcessCoaddTask.setIsPrimaryFlag\<close>

text \<open>
  A source record as the classifier uses it: the centroid slot's failure flag
  (\<open>getCentroidFlag()\<close>), the centroid (\<open>getCentroid()\<close>), the sky position
  (\<open>getCoord()\<close>), the integer columns read by \<open>source.get(key)\<close> and the flag
  columns written by \<open>source.setFlag(key, value)\<close>. A key is modelled by the
  name of its field. Floating-point coordinates are read as reals.
\<close>

type_synonym point = "real \<times> real"

record 'c source =
  centroidFlag :: bool
  centroid :: point
  coord :: 'c
  intField :: "string \<Rightarrow> int"
  flag :: "string \<Rightarrow> bool"

definition setFlag :: "'c source \<Rightarrow> string \<Rightarrow> bool \<Rightarrow> 'c source" where
  "setFlag s k v = s\<lparr>flag := (flag s)(k := v)\<rparr>"

text \<open>The three keys that \<open>ProcessCoaddTask.__init__\<close> adds to the schema.\<close>

definition isPatchInnerKey :: string where
  "isPatchInnerKey = ''detect_isPatchInner''"

definition isTractInnerKey :: string where
  "isTractInnerKey = ''detect_isTractInner''"

definition isPrimaryKey :: string where
  "isPrimaryKey = ''detect_isPrimary''"

text \<open>
  The schema is the list of its field names. \<open>schema.find(name)\<close> raises the
  table library's not-found exception when the field is absent.
\<close>

type_synonym schema = "string list"

definition schema_find :: "schema \<Rightarrow> string \<Rightarrow> error + string" where
  "schema_find sch name =
     (if name \<in> set sch then Inr name else Inl (External ''NotFoundError''))"

text \<open>
  What \<open>setIsPrimaryFlag\<close> reads from \<open>skyInfo\<close>: the region
  \<open>afwGeom.Box2D(skyInfo.patchInfo.getInnerBBox())\<close>, given by its \<open>contains\<close>
  test; \<open>skyInfo.tractInfo.getId()\<close>; and
  \<open>skyInfo.skyMap.findTract(skyPos).getId()\<close>. The geometry library and the
  sky map are outside the repository.
\<close>

record 'c skyInfo =
  innerFloatBBox_contains :: "point \<Rightarrow> bool"
  tractInfo_getId :: int
  findTract_getId :: "'c \<Rightarrow> int"

record processCoaddConfig =
  doDeblend :: bool

definition nChildKeyName :: string where
  "nChildKeyName = ''deblend_nChild''"

text \<open>
  Lines 161-164: the \<open>try\<close> around \<open>self.schema.find(nChildKeyName).key\<close>;
  \<open>except Exception\<close> turns the failure into \<open>nChildKey = None\<close>, anything
  else propagates.
\<close>

definition find_nChildKey :: "schema \<Rightarrow> error + string option" where
  "find_nChildKey sch =
     (case schema_find sch nChildKeyName of
        Inr k \<Rightarrow> Inr (Some k)
      | Inl e \<Rightarrow> if isException e then Inr None else Inl e)"

text \<open>The body of the \<open>for source in sources\<close> loop, lines 176-190.\<close>

definition classifySource ::
  "string option \<Rightarrow> 'c skyInfo \<Rightarrow> 'c source \<Rightarrow> 'c source" where
  "classifySource nChildKey sky s =
     (if centroidFlag s then s
      else
        let isPatchInner = innerFloatBBox_contains sky (centroid s);
            s1 = setFlag s isPatchInnerKey isPatchInner;
            isTractInner = (findTract_getId sky (coord s1) = tractInfo_getId sky);
            s2 = setFlag s1 isTractInnerKey isTractInner
        in if (case nChildKey of None \<Rightarrow> True | Some k \<Rightarrow> intField s2 k = 0)
           then setFlag s2 isPrimaryKey (isPatchInner \<and> isTractInner)
           else s2)"

definition setIsPrimaryFlag ::
  "processCoaddConfig \<Rightarrow> schema \<Rightarrow> 'c source list \<Rightarrow> 'c skyInfo
     \<Rightarrow> error + 'c source list" where
  "setIsPrimaryFlag cfg sch sources sky =
     (case find_nChildKey sch of
        Inl e \<Rightarrow> Inl e
      | Inr nChildKey \<Rightarrow>
          if doDeblend cfg \<and> nChildKey = None
          then Inl (RuntimeError
                 ''Ran the deblender but cannot find 'deblend_nChild' in the source table'')
          else Inr (map (classifySource nChildKey sky) sources))"


text \<open>
  \<open>ProcessCoaddTask.run\<close>, lines 122-144, from the point of view of the
  classifier. \<open>getSkyInfo\<close>, \<open>ProcessImageTask.process\<close>, the flag propagation
  and the butler are collaborators: \<open>skyR\<close> is the outcome of \<open>getSkyInfo\<close>
  and \<open>processR\<close> the outcome of \<open>self.process\<close> (\<open>result.sources\<close>, which
  may be \<open>None\<close>); \<open>propagateR\<close> is what \<open>propagateFlags.run\<close> followed by
  the optional \<open>dataRef.put\<close> makes of the classified table. There is no
  \<open>try\<close> in \<open>run\<close>: every error propagates.
\<close>

definition ProcessCoaddTask_run ::
  "processCoaddConfig \<Rightarrow> schema \<Rightarrow> (error + 'c skyInfo)
     \<Rightarrow> (error + 'c source list option)
     \<Rightarrow> ('c source list \<Rightarrow> error + 'c source list)
     \<Rightarrow> error + 'c source list option" where
  "ProcessCoaddTask_run cfg sch skyR processR propagateR =
     (case skyR of
        Inl e \<Rightarrow> Inl e
      | Inr sky \<Rightarrow>
          (case processR of
             Inl e \<Rightarrow> Inl e
           | Inr None \<Rightarrow> Inr None
           | Inr (Some sources) \<Rightarrow>
               (case setIsPrimaryFlag cfg sch sources sky of
                  Inl e \<Rightarrow> Inl e
                | Inr flagged \<Rightarrow>
                    (case propagateR flagged of
                       Inl e \<Rightarrow> Inl e
                     | Inr out \<Rightarrow> Inr (Some out)))))"

section \<open>makeCoaddTempExp.py: MakeCoaddTempExpTask\<close>

subsection \<open>Data and collaborators\<close>

text \<open>
  \<open>FWHMPerSigma = 2 * math.sqrt(2 * math.log(2))\<close>, line 38. Python floats are
  read as reals; rounding is not modelled.
\<close>

definition FWHMPerSigma :: real where
  "FWHMPerSigma = 2 * sqrt (2 * ln 2)"

text \<open>A data identifier is a Python dict; \<open>d.update(d')\<close> is \<open>d ++ d'\<close>.\<close>

type_synonym dataId = "string \<rightharpoonup> string"

text \<open>
  The arguments of \<open>afwDetection.createPsf(name, width, height, sigma1, sigma2, b)\<close>:
  for the double Gaussian, the widths of the inner and of the outer Gaussian and
  the central amplitude of the outer one relative to the inner one.
\<close>

record psfArgs =
  psfName :: string
  psfWidth :: int
  psfHeight :: int
  sigma1 :: real
  sigma2 :: real
  ampl2 :: real

text \<open>
  An exposure: its pixel planes and the PSF attached to it (\<open>getPsf()\<close>, which
  is \<open>None\<close> when no PSF has been set).
\<close>

record ('px, 'psf) exposure =
  planes :: 'px
  expPsf :: "'psf option"

record wcs =
  pixelScale_asArcseconds :: real

record box2I =
  minX :: int
  minY :: int
  maxX :: int
  maxY :: int

text \<open>
  The collaborators of the preprocessing pipeline, all outside the repository:
  the PSF factory \<open>afwDetection.createPsf\<close>, \<open>psf.getKernel().getDimensions()\<close>,
  \<open>self.psfMatch.run(exposure, modelPsf).psfMatchedExposure\<close>,
  \<open>self.warper.warpExposure(wcs, exposure, maxBBox, destBBox)\<close>,
  \<open>self.zeroPointScaler.scaleExposure(exposure)\<close> (which changes the exposure in
  place: the model returns the changed exposure), and \<open>tempExpRef.put\<close>
  (\<open>None\<close> when it succeeds).
\<close>

record ('px, 'psf) env =
  createPsf :: "psfArgs \<Rightarrow> error + 'psf"
  getKernelDimensions :: "'psf \<Rightarrow> int \<times> int"
  psfMatch_run :: "('px, 'psf) exposure \<Rightarrow> 'psf \<Rightarrow> error + ('px, 'psf) exposure"
  warpExposure :: "wcs \<Rightarrow> ('px, 'psf) exposure \<Rightarrow> box2I option \<Rightarrow> box2I option
                     \<Rightarrow> error + ('px, 'psf) exposure"
  scaleExposure :: "('px, 'psf) exposure \<Rightarrow> error + ('px, 'psf) exposure"
  butler_put :: "string \<Rightarrow> dataId \<Rightarrow> ('px, 'psf) exposure \<Rightarrow> error option"

record makeCoaddTempExpConfig =
  coaddName :: string
  desiredFwhm :: "real option"
  coaddZeroPoint :: real
  doWrite :: bool

text \<open>
  A sensor-level data reference: its identifier, the answer of
  \<open>datasetExists("calexp")\<close> and the outcomes of \<open>get("calexp")\<close> and
  \<open>get("psf")\<close>.
\<close>

record ('px, 'psf) calExpRef =
  calExp_dataId :: dataId
  datasetExists_calexp :: bool
  get_calexp :: "error + ('px, 'psf) exposure"
  get_psf :: "error + 'psf"

record coaddSkyInfo =
  sky_wcs :: wcs
  sky_bbox :: box2I

text \<open>
  The patch reference: its identifier, the outcome of the sky-map lookups of
  \<open>getSkyInfo\<close> and the outcome of the selection subtask
  (\<open>self.select.runDataRef(patchRef, coordList).dataRefList\<close>).
\<close>

record ('px, 'psf) patchRef =
  patch_dataId :: dataId
  skyMap_lookup :: "error + coaddSkyInfo"
  select_runDataRef :: "error + ('px, 'psf) calExpRef list"

record tempExpRef =
  ref_datasetType :: string
  ref_dataId :: dataId

subsection \<open>The trace: log records and butler writes\<close>

datatype level = DEBUG | INFO | WARN

datatype message =
    CoaddNCalexp nat
  | NoPsfMatchingWillBeDone
  | CouldNotFindCalexp dataId
  | ProcessingExposure nat nat dataId
  | ErrorPreprocessing dataId error
  | Persisting string
  | CreateDoubleGaussian real int int
  | PsfMatchExposure
  | WarpExposure

datatype ('px, 'psf) event =
    Log level message
  | Put string dataId "('px, 'psf) exposure"


subsection \<open>The PSF model builder and the per-exposure pipeline\<close>

text \<open>
  \<open>makeModelPsf\<close>, lines 225-240: the debug record, then the factory call. The
  function has no check of its own and no cache.
\<close>

definition makeModelPsf ::
  "('px, 'psf) env \<Rightarrow> real \<Rightarrow> int \<times> int \<Rightarrow> (error + 'psf) \<times> ('px, 'psf) event list" where
  "makeModelPsf E fwhmPixels kernelDim =
     (let coreSigma = fwhmPixels / FWHMPerSigma
      in (createPsf E \<lparr>psfName = ''DoubleGaussian'',
                        psfWidth = fst kernelDim, psfHeight = snd kernelDim,
                        sigma1 = coreSigma, sigma2 = coreSigma * 2.5, ampl2 = 0.1\<rparr>,
          [Log DEBUG (CreateDoubleGaussian fwhmPixels (fst kernelDim) (snd kernelDim))]))"

text \<open>
  \<open>preprocessExposure\<close>, lines 256-268. The guard of the PSF-match step is
  \<open>self.config.desiredFwhm is not None\<close>. Inside it, the float division raises
  \<open>ZeroDivisionError\<close> on a zero pixel scale and \<open>exposure.getPsf()\<close> is
  \<open>None\<close> for an exposure without PSF, on which \<open>getKernel\<close> is an
  \<open>AttributeError\<close>. The result is paired with the trace of the call.
\<close>

definition preprocessExposure ::
  "('px, 'psf) env \<Rightarrow> makeCoaddTempExpConfig \<Rightarrow> ('px, 'psf) exposure \<Rightarrow> wcs
     \<Rightarrow> box2I option \<Rightarrow> box2I option
     \<Rightarrow> (error + ('px, 'psf) exposure) \<times> ('px, 'psf) event list" where
  "preprocessExposure E cfg exposure w maxBBox destBBox =
     (let (matched, l1) =
            (case desiredFwhm cfg of
               None \<Rightarrow> (Inr exposure, [])
             | Some f \<Rightarrow>
                 if pixelScale_asArcseconds w = 0
                 then (Inl ZeroDivisionError, [Log INFO PsfMatchExposure])
                 else
                   let fwhmPixels = f / pixelScale_asArcseconds w
                   in (case expPsf exposure of
                         None \<Rightarrow> (Inl (AttributeError ''getKernel''), [Log INFO PsfMatchExposure])
                       | Some p \<Rightarrow>
                           let kernelDim = getKernelDimensions E p;
                               (model, lm) = makeModelPsf E fwhmPixels kernelDim
                           in (case model of
                                 Inl e \<Rightarrow> (Inl e, Log INFO PsfMatchExposure # lm)
                               | Inr modelPsf \<Rightarrow>
                                   (psfMatch_run E exposure modelPsf,
                                    Log INFO PsfMatchExposure # lm))))
      in case matched of
           Inl e \<Rightarrow> (Inl e, l1)
         | Inr exposure1 \<Rightarrow>
             (case warpExposure E w exposure1 maxBBox destBBox of
                Inl e \<Rightarrow> (Inl e, l1 @ [Log INFO WarpExposure])
              | Inr exposure2 \<Rightarrow>
                  (scaleExposure E exposure2, l1 @ [Log INFO WarpExposure])))"

text \<open>\<open>getCalExp\<close>, lines 191-195.\<close>

definition getCalExp ::
  "('px, 'psf) calExpRef \<Rightarrow> bool \<Rightarrow> error + ('px, 'psf) exposure" where
  "getCalExp dataRef getPsf =
     (case get_calexp dataRef of
        Inl e \<Rightarrow> Inl e
      | Inr exposure \<Rightarrow>
          if getPsf
          then (case get_psf dataRef of
                  Inl e \<Rightarrow> Inl e
                | Inr psf \<Rightarrow> Inr (exposure\<lparr>expPsf := Some psf\<rparr>))
          else Inr exposure)"

text \<open>
  \<open>getSkyInfo\<close> (lines 209-223) and \<open>selectExposures\<close> (lines 180-182) consist
  of collaborator calls only; their outcomes come with the patch reference.
\<close>

definition getSkyInfo :: "('px, 'psf) patchRef \<Rightarrow> error + coaddSkyInfo" where
  "getSkyInfo pRef = skyMap_lookup pRef"

definition selectExposures ::
  "('px, 'psf) patchRef \<Rightarrow> wcs \<Rightarrow> box2I \<Rightarrow> error + ('px, 'psf) calExpRef list" where
  "selectExposures pRef w bbox = select_runDataRef pRef"

subsection \<open>The run\<close>

text \<open>
  The body of the loop of \<open>run\<close>, lines 132-165, for the exposure at index
  \<open>ind\<close>: \<open>Inr None\<close> is \<open>continue\<close>, \<open>Inr (Some r)\<close> is the reference
  appended to \<open>dataRefList\<close>, \<open>Inl e\<close> is an exception leaving \<open>run\<close>.
  Only \<open>preprocessExposure\<close> is inside the \<open>try\<close>; \<open>getCalExp\<close> and
  \<open>tempExpRef.put\<close> are not. The butler's \<open>dataRef\<close> only builds the
  reference. On line 158 the name \<open>coaddExposure\<close> is read;
  it is no parameter or local of \<open>run\<close>, no global of the module and no
  builtin, so the line raises \<open>NameError\<close> and lines 159-163 never run.
\<close>

definition runExposure ::
  "('px, 'psf) env \<Rightarrow> makeCoaddTempExpConfig \<Rightarrow> ('px, 'psf) patchRef \<Rightarrow> coaddSkyInfo
     \<Rightarrow> nat \<Rightarrow> bool \<Rightarrow> string \<Rightarrow> nat \<Rightarrow> ('px, 'psf) calExpRef
     \<Rightarrow> (error + tempExpRef option) \<times> ('px, 'psf) event list" where
  "runExposure E cfg pRef sky numExp doPsfMatch tempExpName ind calRef =
     (if \<not> datasetExists_calexp calRef
      then (Inr None, [Log WARN (CouldNotFindCalexp (calExp_dataId calRef))])
      else
        let l0 = [Log INFO (ProcessingExposure (ind + 1) numExp (calExp_dataId calRef))]
        in (case getCalExp calRef doPsfMatch of
              Inl e \<Rightarrow> (Inl e, l0)
            | Inr exposure \<Rightarrow>
                (case preprocessExposure E cfg exposure (sky_wcs sky) None (Some (sky_bbox sky)) of
                   (Inl e, l1) \<Rightarrow>
                     if isException e
                     then (Inr None,
                           l0 @ l1 @ [Log WARN (ErrorPreprocessing (calExp_dataId calRef) e)])
                     else (Inl e, l0 @ l1)
                 | (Inr exposure1, l1) \<Rightarrow>
                     let tempExpId = calExp_dataId calRef ++ patch_dataId pRef;
                         tRef = \<lparr>ref_datasetType = tempExpName, ref_dataId = tempExpId\<rparr>
                     in if doWrite cfg
                        then (case butler_put E tempExpName tempExpId exposure1 of
                                Some e \<Rightarrow> (Inl e, l0 @ l1)
                              | None \<Rightarrow>
                                  let l2 = l0 @ l1 @ [Put tempExpName tempExpId exposure1]
                                  in if desiredFwhm cfg \<noteq> None
                                     then (Inl (NameError ''coaddExposure''),
                                           l2 @ [Log INFO (Persisting (coaddName cfg @ ''Coadd_initPsf''))])
                                     else (Inr (Some tRef), l2))
                        else (Inr (Some tRef), l0 @ l1))))"

text \<open>The \<open>for ind, calExpRef in enumerate(imageRefList)\<close> loop with its accumulator.\<close>

fun runLoop ::
  "('px, 'psf) env \<Rightarrow> makeCoaddTempExpConfig \<Rightarrow> ('px, 'psf) patchRef \<Rightarrow> coaddSkyInfo
     \<Rightarrow> nat \<Rightarrow> bool \<Rightarrow> string \<Rightarrow> (nat \<times> ('px, 'psf) calExpRef) list \<Rightarrow> tempExpRef list
     \<Rightarrow> (error + tempExpRef list) \<times> ('px, 'psf) event list" where
  "runLoop E cfg pRef sky numExp doPsfMatch tempExpName [] dataRefList = (Inr dataRefList, [])"
| "runLoop E cfg pRef sky numExp doPsfMatch tempExpName ((ind, calRef) # rest) dataRefList =
     (case runExposure E cfg pRef sky numExp doPsfMatch tempExpName ind calRef of
        (Inl e, l) \<Rightarrow> (Inl e, l)
      | (Inr None, l) \<Rightarrow>
          (case runLoop E cfg pRef sky numExp doPsfMatch tempExpName rest dataRefList of
             (r, l') \<Rightarrow> (r, l @ l'))
      | (Inr (Some tRef), l) \<Rightarrow>
          (case runLoop E cfg pRef sky numExp doPsfMatch tempExpName rest (dataRefList @ [tRef]) of
             (r, l') \<Rightarrow> (r, l @ l')))"

text \<open>
  \<open>MakeCoaddTempExpTask.run\<close>, lines 111-169: the returned
  \<open>Struct(dataRefList = ...)\<close> or the exception, with the trace of the run.
\<close>

definition run ::
  "('px, 'psf) env \<Rightarrow> makeCoaddTempExpConfig \<Rightarrow> ('px, 'psf) patchRef
     \<Rightarrow> (error + tempExpRef list) \<times> ('px, 'psf) event list" where
  "run E cfg pRef =
     (case getSkyInfo pRef of
        Inl e \<Rightarrow> (Inl e, [])
      | Inr sky \<Rightarrow>
          (case selectExposures pRef (sky_wcs sky) (sky_bbox sky) of
             Inl e \<Rightarrow> (Inl e, [])
           | Inr imageRefList \<Rightarrow>
               let numExp = length imageRefList
               in if numExp < 1
                  then (Inl (TaskError ''No exposures to coadd''), [])
                  else
                    let doPsfMatch = (desiredFwhm cfg \<noteq> None);
                        l0 = Log INFO (CoaddNCalexp numExp)
                               # (if \<not> doPsfMatch then [Log INFO NoPsfMatchingWillBeDone] else []);
                        tempExpName = coaddName cfg @ ''Coadd_tempExp''
                    in (case runLoop E cfg pRef sky numExp doPsfMatch tempExpName
                               (enumerate 0 imageRefList) [] of
                          (r, l) \<Rightarrow> (r, l0 @ l))))"


text \<open>
  The PSF-match step has been entered when its log record
  (\<open>"PSF-match exposure"\<close>, line 257) is in the trace.
\<close>

definition psfMatchAttempted :: "('px, 'psf) event list \<Rightarrow> bool" where
  "psfMatchAttempted tr \<longleftrightarrow> Log INFO PsfMatchExposure \<in> set tr"

section \<open>coadd.py: CoaddTask\<close>

text \<open>
  A name read in a function body resolves when it is a parameter or a local of
  the function, a global of the module, or a builtin. The builtins are those
  of Python 2, the language of the module (\<open>except Exception, e\<close>).
\<close>

definition python_builtins :: "string list" where
  "python_builtins =
     [''ArithmeticError'', ''AssertionError'', ''AttributeError'', ''BaseException'',
      ''BufferError'', ''BytesWarning'', ''DeprecationWarning'', ''EOFError'', ''Ellipsis'',
      ''EnvironmentError'', ''Exception'', ''False'', ''FloatingPointError'',
      ''FutureWarning'', ''GeneratorExit'', ''IOError'', ''ImportError'', ''ImportWarning'',
      ''IndentationError'', ''IndexError'', ''KeyError'', ''KeyboardInterrupt'',
      ''LookupError'', ''MemoryError'', ''NameError'', ''None'', ''NotImplemented'',
      ''NotImplementedError'', ''OSError'', ''OverflowError'', ''PendingDeprecationWarning'',
      ''ReferenceError'', ''RuntimeError'', ''RuntimeWarning'', ''StandardError'',
      ''StopIteration'', ''SyntaxError'', ''SyntaxWarning'', ''SystemError'', ''SystemExit'',
      ''TabError'', ''True'', ''TypeError'', ''UnboundLocalError'', ''UnicodeDecodeError'',
      ''UnicodeEncodeError'', ''UnicodeError'', ''UnicodeTranslateError'', ''UnicodeWarning'',
      ''UserWarning'', ''ValueError'', ''Warning'', ''ZeroDivisionError'', ''__debug__'',
      ''__doc__'', ''__import__'', ''__name__'', ''__package__'', ''abs'', ''all'', ''any'',
      ''apply'', ''basestring'', ''bin'', ''bool'', ''buffer'', ''bytearray'', ''bytes'',
      ''callable'', ''chr'', ''classmethod'', ''cmp'', ''coerce'', ''compile'', ''complex'',
      ''copyright'', ''credits'', ''delattr'', ''dict'', ''dir'', ''divmod'', ''enumerate'',
      ''eval'', ''execfile'', ''exit'', ''file'', ''filter'', ''float'', ''format'',
      ''frozenset'', ''getattr'', ''globals'', ''hasattr'', ''hash'', ''help'', ''hex'',
      ''id'', ''input'', ''int'', ''intern'', ''isinstance'', ''issubclass'', ''iter'',
      ''len'', ''license'', ''list'', ''locals'', ''long'', ''map'', ''max'', ''memoryview'',
      ''min'', ''next'', ''object'', ''oct'', ''open'', ''ord'', ''pow'', ''print'',
      ''property'', ''quit'', ''range'', ''raw_input'', ''reduce'', ''reload'', ''repr'',
      ''reversed'', ''round'', ''set'', ''setattr'', ''slice'', ''sorted'', ''staticmethod'',
      ''str'', ''sum'', ''super'', ''tuple'', ''type'', ''unichr'', ''unicode'', ''vars'',
      ''xrange'', ''zip'']"

definition resolves :: "string list \<Rightarrow> string list \<Rightarrow> string \<Rightarrow> bool" where
  "resolves fnLocals moduleGlobals n \<longleftrightarrow>
     n \<in> set fnLocals \<or> n \<in> set moduleGlobals \<or> n \<in> set python_builtins"

text \<open>
  The globals of \<open>coadd.py\<close>: the implicit module attributes, the imports of
  lines 23-32, \<open>FWHMPerSigma\<close> and the class.
\<close>

definition coadd_globals :: "string list" where
  "coadd_globals =
     [''__builtins__'', ''__doc__'', ''__file__'', ''__name__'', ''__package__'',
      ''math'', ''os'', ''sys'', ''afwDetection'', ''afwGeom'', ''afwMath'', ''coaddUtils'',
      ''ipDiffIm'', ''pipeBase'', ''FWHMPerSigma'', ''CoaddTask'']"

text \<open>
  The parameters of \<open>run\<close> as line 44 declares them (there is no \<open>self\<close>)
  and the names assigned in its body.
\<close>

definition CoaddTask_run_locals :: "string list" where
  "CoaddTask_run_locals =
     [''butler'', ''idList'', ''coaddBBox'', ''coaddWcs'', ''desFwhm'',
      ''numExp'', ''coadd'', ''prevKernelDim'', ''ind'', ''id'', ''exposure'', ''psf'',
      ''psfKernel'', ''kernelDim'', ''coreSigma'', ''modelPsf'', ''psfMatchingKernel'',
      ''kernelCellSet'']"

text \<open>
  \<open>CoaddTask.run\<close>, lines 68-103, with the list of the exposures handed to
  \<open>coadd.addExposure\<close>. After the check of \<open>numExp\<close>, line 71 evaluates
  \<open>self.log.log\<close> and then \<open>pexLog.INFO\<close>. \<open>rest\<close> is whatever lines 73-103
  would do if both names resolved.
\<close>

definition CoaddTask_run ::
  "((error + 'coadd) \<times> 'e list) \<Rightarrow> 'i list \<Rightarrow> (error + 'coadd) \<times> 'e list" where
  "CoaddTask_run rest idList =
     (let numExp = length idList
      in if numExp < 1 then (Inl (RuntimeError ''No exposures to coadd!''), [])
         else if \<not> resolves CoaddTask_run_locals coadd_globals ''self''
         then (Inl (NameError ''self''), [])
         else if \<not> resolves CoaddTask_run_locals coadd_globals ''pexLog''
         then (Inl (NameError ''pexLog''), [])
         else rest)"

text \<open>
  \<open>CoaddTask.__init__\<close>, lines 40-42. Its first action reads the attribute
  \<open>pipeBase\<close> of the new instance, which has no attribute of its own yet: the
  lookup goes to the attributes of the class (its two methods and the implicit
  \<open>__doc__\<close> and \<open>__module__\<close>) and to those inherited from
  \<open>pipeBase.Task\<close>, \<open>taskAttrs\<close>. \<open>rest\<close> is what the remaining calls
  would do.
\<close>

definition CoaddTask_attrs :: "string list" where
  "CoaddTask_attrs = [''__doc__'', ''__module__'', ''__init__'', ''run'']"

definition CoaddTask_init :: "string list \<Rightarrow> (error + 't) \<Rightarrow> error + 't" where
  "CoaddTask_init taskAttrs rest =
     (if ''pipeBase'' \<in> set CoaddTask_attrs \<or> ''pipeBase'' \<in> set taskAttrs
      then rest
      else Inl (AttributeError ''pipeBase''))"

section \<open>Example data\<close>

text \<open>
  A concrete set of collaborators. Pixel planes are the list of the processing
  steps they went through; a PSF is the descriptor it was built from. The
  factory rejects a non-positive width or size; the matcher fails on a
  \<open>faint\<close> exposure, the warper on one that lies \<open>offPatch\<close>, the scaler on
  one with \<open>noCalib\<close>.
\<close>

definition exampleEnv :: "(string list, psfArgs) env" where
  "exampleEnv =
     \<lparr>createPsf = (\<lambda>a. if sigma1 a \<le> 0 \<or> sigma2 a \<le> 0 \<or> psfWidth a \<le> 0 \<or> psfHeight a \<le> 0
                        then Inl (External ''InvalidParameter'') else Inr a),
      getKernelDimensions = (\<lambda>p. (psfWidth p, psfHeight p)),
      psfMatch_run = (\<lambda>x m. if ''faint'' \<in> set (planes x)
                              then Inl (External ''PsfMatchFailure'')
                              else Inr (x\<lparr>planes := planes x @ [''psfMatched'']\<rparr>)),
      warpExposure = (\<lambda>w x maxB destB. if ''offPatch'' \<in> set (planes x)
                              then Inl (External ''NoOverlap'')
                              else Inr (x\<lparr>planes := planes x @ [''warped'']\<rparr>)),
      scaleExposure = (\<lambda>x. if ''noCalib'' \<in> set (planes x)
                              then Inl (External ''CalibrationMissing'')
                              else Inr (x\<lparr>planes := planes x @ [''scaled'']\<rparr>)),
      butler_put = (\<lambda>n d x. None)\<rparr>"

text \<open>The same collaborators with a factory that accepts every argument.\<close>

definition lenientEnv :: "(string list, psfArgs) env" where
  "lenientEnv = exampleEnv\<lparr>createPsf := Inr\<rparr>"

definition exampleCfg :: "real option \<Rightarrow> bool \<Rightarrow> makeCoaddTempExpConfig" where
  "exampleCfg f w = \<lparr>coaddName = ''deep'', desiredFwhm = f, coaddZeroPoint = 27, doWrite = w\<rparr>"

definition exampleWcs :: wcs where
  "exampleWcs = \<lparr>pixelScale_asArcseconds = 1 / 5\<rparr>"

definition examplePsf :: psfArgs where
  "examplePsf = \<lparr>psfName = ''pca'', psfWidth = 15, psfHeight = 15,
                  sigma1 = 2, sigma2 = 0, ampl2 = 0\<rparr>"

text \<open>The model requested for a desired FWHM of 1 arc second, that is 5 pixels.\<close>

definition exampleModelPsf :: psfArgs where
  "exampleModelPsf = \<lparr>psfName = ''DoubleGaussian'', psfWidth = 15, psfHeight = 15,
                       sigma1 = 5 / FWHMPerSigma, sigma2 = 5 / FWHMPerSigma * 2.5,
                       ampl2 = 0.1\<rparr>"

definition exampleExposure :: "string list \<Rightarrow> (string list, psfArgs) exposure" where
  "exampleExposure ps = \<lparr>planes = ps, expPsf = None\<rparr>"

text \<open>
  Data references: one that loads, with the given planes; one whose calexp is
  absent; one whose calexp exists and whose PSF cannot be read.
\<close>

definition goodRef :: "string \<Rightarrow> string list \<Rightarrow> (string list, psfArgs) calExpRef" where
  "goodRef v ps = \<lparr>calExp_dataId = [''visit'' \<mapsto> v], datasetExists_calexp = True,
                    get_calexp = Inr (exampleExposure ps), get_psf = Inr examplePsf\<rparr>"

definition missingRef :: "string \<Rightarrow> (string list, psfArgs) calExpRef" where
  "missingRef v = \<lparr>calExp_dataId = [''visit'' \<mapsto> v], datasetExists_calexp = False,
                    get_calexp = Inl (External ''NoResults''), get_psf = Inl (External ''NoResults'')\<rparr>"

definition noPsfRef :: "string \<Rightarrow> (string list, psfArgs) calExpRef" where
  "noPsfRef v = \<lparr>calExp_dataId = [''visit'' \<mapsto> v], datasetExists_calexp = True,
                  get_calexp = Inr (exampleExposure [''calexp'']), get_psf = Inl (External ''NoResults'')\<rparr>"

text \<open>A reference whose calexp exists and cannot be read.\<close>

definition unreadableRef :: "string \<Rightarrow> (string list, psfArgs) calExpRef" where
  "unreadableRef v = \<lparr>calExp_dataId = [''visit'' \<mapsto> v], datasetExists_calexp = True,
                       get_calexp = Inl (External ''FitsError''), get_psf = Inr examplePsf\<rparr>"

definition exampleSky :: coaddSkyInfo where
  "exampleSky = \<lparr>sky_wcs = exampleWcs, sky_bbox = \<lparr>minX = 0, minY = 0, maxX = 99, maxY = 99\<rparr>\<rparr>"

definition examplePatch ::
  "(string list, psfArgs) calExpRef list \<Rightarrow> (string list, psfArgs) patchRef" where
  "examplePatch refs = \<lparr>patch_dataId = [''tract'' \<mapsto> ''0'', ''patch'' \<mapsto> ''1,2''],
                         skyMap_lookup = Inr exampleSky, select_runDataRef = Inr refs\<rparr>"

text \<open>
  Source tables: a source takes its centroid failure flag, its centroid, its
  child count and the value of all three flags on entry. The patch's inner
  region is the half-open square from 0 to 10; the tract is tract 3, and the
  sky position is the number of the tract that claims it.
\<close>

definition exampleSource :: "bool \<Rightarrow> point \<Rightarrow> int \<Rightarrow> int \<Rightarrow> bool \<Rightarrow> int source" where
  "exampleSource cf c tr n fl =
     \<lparr>centroidFlag = cf, centroid = c, coord = tr,
      intField = (\<lambda>k. if k = ''deblend_nChild'' then n else 0), flag = (\<lambda>k. fl)\<rparr>"

definition exampleSkyInfo :: "int skyInfo" where
  "exampleSkyInfo =
     \<lparr>innerFloatBBox_contains = (\<lambda>(x, y). 0 \<le> x \<and> x < 10 \<and> 0 \<le> y \<and> y < 10),
      tractInfo_getId = 3, findTract_getId = (\<lambda>c. c)\<rparr>"

definition deblendSchema :: schema where
  "deblendSchema = [''id'', ''coord'', ''parent'', ''deblend_nChild'',
                    ''detect_isPatchInner'', ''detect_isTractInner'', ''detect_isPrimary'']"

definition plainSchema :: schema where
  "plainSchema = [''id'', ''coord'', ''parent'',
                  ''detect_isPatchInner'', ''detect_isTractInner'', ''detect_isPrimary'']"

section \<open>Auxiliary facts\<close>

lemma FWHMPerSigma_pos: "0 < FWHMPerSigma"
proof -
  have "0 < ln (2::real)" by simp
  then have "0 < sqrt (2 * ln (2::real))" by simp
  then show ?thesis by (simp add: FWHMPerSigma_def)
qed

lemma FWHMPerSigma_nonneg: "0 \<le> FWHMPerSigma"
  using FWHMPerSigma_pos by simp

lemma coreSigma_nonpos_iff: "f / FWHMPerSigma \<le> 0 \<longleftrightarrow> f \<le> 0"
  using FWHMPerSigma_pos by (simp add: field_simps)

lemma wingSigma_nonpos_iff: "f / FWHMPerSigma * 2.5 \<le> 0 \<longleftrightarrow> f \<le> 0"
  using FWHMPerSigma_pos by (simp add: field_simps)

lemmas example_defs =
  exampleEnv_def lenientEnv_def exampleCfg_def exampleWcs_def examplePsf_def
  exampleExposure_def goodRef_def missingRef_def noPsfRef_def exampleSky_def examplePatch_def

lemmas run_defs =
  run_def runExposure_def getCalExp_def getSkyInfo_def selectExposures_def
  preprocessExposure_def makeModelPsf_def Let_def enumerate_simps

lemma setIsPrimaryFlag_Inr:
  "setIsPrimaryFlag cfg sch sources sky = Inr out \<Longrightarrow>
     out = map (classifySource (if nChildKeyName \<in> set sch then Some nChildKeyName else None) sky) sources"
  by (auto simp: setIsPrimaryFlag_def find_nChildKey_def schema_find_def split: if_splits)

lemma preprocessExposure_no_Put:
  "Put n d y \<notin> set (snd (preprocessExposure E cfg x w mB dB))"
  by (auto simp: preprocessExposure_def makeModelPsf_def Let_def
      split: option.splits sum.splits if_splits prod.splits)

lemma preprocessExposure_scaled:
  "preprocessExposure E cfg x w mB dB = (Inr y, l) \<Longrightarrow>
     \<exists>x1 x2. warpExposure E w x1 mB dB = Inr x2 \<and> scaleExposure E x2 = Inr y"
  by (auto simp: preprocessExposure_def makeModelPsf_def Let_def
      split: option.splits sum.splits if_splits prod.splits)

lemma runExposure_Put_scaled:
  assumes "Put n d y \<in> set (snd (runExposure E cfg pRef sky numExp dpm tn ind r))"
  shows "\<exists>x2. scaleExposure E x2 = Inr y"
proof (cases "getCalExp r dpm")
  case (Inl e)
  with assms show ?thesis
    by (auto simp: runExposure_def split: if_splits)
next
  case (Inr x)
  obtain res l1 where pp:
    "preprocessExposure E cfg x (sky_wcs sky) None (Some (sky_bbox sky)) = (res, l1)"
    by (cases "preprocessExposure E cfg x (sky_wcs sky) None (Some (sky_bbox sky))")
  have noPut: "Put n d y \<notin> set l1"
    using preprocessExposure_no_Put [of n d y E cfg x "sky_wcs sky" None "Some (sky_bbox sky)"] pp
    by simp
  show ?thesis
  proof (cases res)
    case (Inl e)
    with assms Inr pp noPut show ?thesis
      by (auto simp: runExposure_def Let_def split: if_splits)
  next
    case res: (Inr y')
    from preprocessExposure_scaled pp res obtain x2 where "scaleExposure E x2 = Inr y'"
      by blast
    with assms Inr pp res noPut show ?thesis
      by (auto simp: runExposure_def Let_def split: if_splits option.splits)
  qed
qed

lemma runLoop_Put_scaled:
  "Put n d y \<in> set (snd (runLoop E cfg pRef sky numExp dpm tn irs acc)) \<Longrightarrow>
     \<exists>x2. scaleExposure E x2 = Inr y"
proof (induction irs arbitrary: acc)
  case Nil
  then show ?case by simp
next
  case (Cons p irs)
  obtain ind r where p: "p = (ind, r)" by (cases p)
  show ?case
    using Cons.prems Cons.IH runExposure_Put_scaled [of n d y E cfg pRef sky numExp dpm tn ind r]
    by (auto simp: p case_prod_beta split: sum.splits option.splits)
qed

lemma run_Put_scaled:
  "Put n d y \<in> set (snd (run E cfg pRef)) \<Longrightarrow> \<exists>x2. scaleExposure E x2 = Inr y"
  unfolding run_def Let_def
  using runLoop_Put_scaled [of n d y E cfg pRef]
  by (auto simp: case_prod_beta split: sum.splits if_splits)

lemma runLoop_all_skipped:
  "(\<forall>(i, r) \<in> set irs. fst (runExposure E cfg pRef sky numExp dpm tn i r) = Inr None) \<Longrightarrow>
     fst (runLoop E cfg pRef sky numExp dpm tn irs acc) = Inr acc"
proof (induction irs arbitrary: acc)
  case Nil
  then show ?case by simp
next
  case (Cons p irs)
  obtain ind r where p: "p = (ind, r)" by (cases p)
  from Cons.prems have here: "fst (runExposure E cfg pRef sky numExp dpm tn ind r) = Inr None"
    and there: "\<forall>(i, r) \<in> set irs. fst (runExposure E cfg pRef sky numExp dpm tn i r) = Inr None"
    by (auto simp: p)
  from Cons.IH [OF there] here show ?case
    by (auto simp: p case_prod_beta split: sum.splits option.splits)
qed

lemma runLoop_skip:
  "fst (runExposure E cfg pRef sky numExp dpm tn ind r) = Inr None \<Longrightarrow>
   runLoop E cfg pRef sky numExp dpm tn ((ind, r) # rest) acc
     = (fst (runLoop E cfg pRef sky numExp dpm tn rest acc),
        snd (runExposure E cfg pRef sky numExp dpm tn ind r)
          @ snd (runLoop E cfg pRef sky numExp dpm tn rest acc))"
  by (cases "runExposure E cfg pRef sky numExp dpm tn ind r") (simp add: case_prod_beta)

lemma runExposure_Some_scaled:
  assumes "fst (runExposure E cfg pRef sky numExp dpm tn ind r) = Inr (Some t)"
  shows "\<exists>x y l x2. getCalExp r dpm = Inr x
           \<and> preprocessExposure E cfg x (sky_wcs sky) None (Some (sky_bbox sky)) = (Inr y, l)
           \<and> scaleExposure E x2 = Inr y"
proof (cases "getCalExp r dpm")
  case (Inl e)
  with assms show ?thesis
    by (auto simp: runExposure_def split: if_splits)
next
  case (Inr x)
  obtain res l1 where pp:
    "preprocessExposure E cfg x (sky_wcs sky) None (Some (sky_bbox sky)) = (res, l1)"
    by (cases "preprocessExposure E cfg x (sky_wcs sky) None (Some (sky_bbox sky))")
  show ?thesis
  proof (cases res)
    case (Inl e)
    with assms Inr pp show ?thesis
      by (auto simp: runExposure_def Let_def split: if_splits)
  next
    case res: (Inr y)
    from preprocessExposure_scaled pp res obtain x2 where "scaleExposure E x2 = Inr y"
      by blast
    with Inr pp res show ?thesis by blast
  qed
qed

lemma runLoop_abort:
  "fst (runExposure E cfg pRef sky numExp dpm tn ind r) = Inl e \<Longrightarrow>
   runLoop E cfg pRef sky numExp dpm tn ((ind, r) # rest) acc
     = (Inl e, snd (runExposure E cfg pRef sky numExp dpm tn ind r))"
  by (cases "runExposure E cfg pRef sky numExp dpm tn ind r") simp

lemma run_is_runLoop:
  assumes "getSkyInfo pRef = Inr sky"
    and "selectExposures pRef (sky_wcs sky) (sky_bbox sky) = Inr refs"
    and "refs \<noteq> []"
  shows "fst (run E cfg pRef)
           = fst (runLoop E cfg pRef sky (length refs) (desiredFwhm cfg \<noteq> None)
                    (coaddName cfg @ ''Coadd_tempExp'') (enumerate 0 refs) [])"
  using assms by (simp add: run_def Let_def case_prod_beta)

lemma CoaddTask_run_unbound:
  "\<not> resolves CoaddTask_run_locals coadd_globals ''self''"
  "\<not> resolves CoaddTask_run_locals coadd_globals ''pexLog''"
  "\<not> resolves CoaddTask_run_locals coadd_globals ''policy''"
  by (simp_all add: resolves_def CoaddTask_run_locals_def coadd_globals_def python_builtins_def)

lemma preprocessExposure_model_failure:
  assumes "desiredFwhm cfg = Some f" and "pixelScale_asArcseconds w \<noteq> 0"
    and "expPsf x = Some p"
    and "fst (makeModelPsf E (f / pixelScale_asArcseconds w) (getKernelDimensions E p)) = Inl e"
  shows "preprocessExposure E cfg x w mB dB
           = (Inl e, Log INFO PsfMatchExposure
                # snd (makeModelPsf E (f / pixelScale_asArcseconds w) (getKernelDimensions E p)))"
  using assms
  by (cases "makeModelPsf E (f / pixelScale_asArcseconds w) (getKernelDimensions E p)")
     (simp add: preprocessExposure_def)

section \<open>C1: a run in which nothing survives\<close>

text \<open>
  C1, as stated, fails. Two exposures are selected; the calexp of the first is
  absent and the second does not overlap the patch, so both are skipped. The
  run does not raise: it returns the empty \<open>dataRefList\<close>. The only check of
  \<open>numExp\<close> is on line 122, before the loop; nothing counts the survivors.
\<close>

theorem C1_all_skipped_returns_normally:
  "run exampleEnv (exampleCfg None True)
       (examplePatch [missingRef ''1'', goodRef ''2'' [''calexp'', ''offPatch'']])
     = (Inr [],
        [Log INFO (CoaddNCalexp 2), Log INFO NoPsfMatchingWillBeDone,
         Log WARN (CouldNotFindCalexp [''visit'' \<mapsto> ''1'']),
         Log INFO (ProcessingExposure 2 2 [''visit'' \<mapsto> ''2'']),
         Log INFO WarpExposure,
         Log WARN (ErrorPreprocessing [''visit'' \<mapsto> ''2''] (External ''NoOverlap''))])"
  by (simp add: run_defs example_defs)

text \<open>
  C1, amended. The run raises the run-fatal error (\<open>TaskError\<close>, "No exposures
  to coadd", the spec's \<open>EmptyInputSet\<close>) when the selection returns no
  exposure, before any per-exposure work. When the selection is not empty and
  every selected exposure is skipped, the run returns normally with an empty
  output list.
\<close>

theorem C1_empty_selection_raises:
  assumes "getSkyInfo pRef = Inr sky"
    and "selectExposures pRef (sky_wcs sky) (sky_bbox sky) = Inr refs"
  shows "(refs = [] \<longrightarrow> run E cfg pRef = (Inl (TaskError ''No exposures to coadd''), []))
       \<and> (refs \<noteq> [] \<and>
            (\<forall>(i, r) \<in> set (enumerate 0 refs).
               fst (runExposure E cfg pRef sky (length refs) (desiredFwhm cfg \<noteq> None)
                      (coaddName cfg @ ''Coadd_tempExp'') i r) = Inr None)
          \<longrightarrow> fst (run E cfg pRef) = Inr [])"
proof (intro conjI impI)
  assume "refs = []"
  with assms show "run E cfg pRef = (Inl (TaskError ''No exposures to coadd''), [])"
    by (simp add: run_def)
next
  assume h: "refs \<noteq> [] \<and>
            (\<forall>(i, r) \<in> set (enumerate 0 refs).
               fst (runExposure E cfg pRef sky (length refs) (desiredFwhm cfg \<noteq> None)
                      (coaddName cfg @ ''Coadd_tempExp'') i r) = Inr None)"
  then have "fst (runLoop E cfg pRef sky (length refs) (desiredFwhm cfg \<noteq> None)
                    (coaddName cfg @ ''Coadd_tempExp'') (enumerate 0 refs) []) = Inr []"
    by (intro runLoop_all_skipped) simp
  with assms h show "fst (run E cfg pRef) = Inr []"
    by (simp add: run_def Let_def case_prod_beta)
qed

text \<open>
  C1, amended, at an empty selection and at a selection of one exposure whose
  calexp is absent.
\<close>

theorem C1_empty_selection_raises_witness:
  "getSkyInfo (examplePatch [missingRef ''1'']) = Inr exampleSky
   \<and> selectExposures (examplePatch [missingRef ''1'']) (sky_wcs exampleSky) (sky_bbox exampleSky)
       = Inr [missingRef ''1'']
   \<and> fst (run exampleEnv (exampleCfg None True) (examplePatch [missingRef ''1''])) = Inr []
   \<and> getSkyInfo (examplePatch []) = Inr exampleSky
   \<and> selectExposures (examplePatch []) (sky_wcs exampleSky) (sky_bbox exampleSky) = Inr []
   \<and> run exampleEnv (exampleCfg None True) (examplePatch [])
       = (Inl (TaskError ''No exposures to coadd''), [])"
proof -
  have a: "getSkyInfo (examplePatch [missingRef ''1'']) = Inr exampleSky"
    by (simp add: getSkyInfo_def examplePatch_def)
  have b: "selectExposures (examplePatch [missingRef ''1'']) (sky_wcs exampleSky)
             (sky_bbox exampleSky) = Inr [missingRef ''1'']"
    by (simp add: selectExposures_def examplePatch_def)
  have c: "[missingRef ''1''] \<noteq> [] \<and>
      (\<forall>(i, r) \<in> set (enumerate 0 [missingRef ''1'']).
         fst (runExposure exampleEnv (exampleCfg None True) (examplePatch [missingRef ''1''])
                exampleSky (length [missingRef ''1''])
                (desiredFwhm (exampleCfg None True) \<noteq> None)
                (coaddName (exampleCfg None True) @ ''Coadd_tempExp'') i r) = Inr None)"
    by (simp add: runExposure_def missingRef_def)
  have a': "getSkyInfo (examplePatch []) = Inr exampleSky"
    by (simp add: getSkyInfo_def examplePatch_def)
  have b': "selectExposures (examplePatch []) (sky_wcs exampleSky) (sky_bbox exampleSky) = Inr []"
    by (simp add: selectExposures_def examplePatch_def)
  from C1_empty_selection_raises [OF a b, of exampleEnv "exampleCfg None True"] c
  have "fst (run exampleEnv (exampleCfg None True) (examplePatch [missingRef ''1''])) = Inr []"
    by blast
  moreover from C1_empty_selection_raises [OF a' b', of exampleEnv "exampleCfg None True"]
  have "run exampleEnv (exampleCfg None True) (examplePatch [])
          = (Inl (TaskError ''No exposures to coadd''), [])"
    by blast
  ultimately show ?thesis using a b a' b' by blast
qed

section \<open>C2: when PSF matching is performed\<close>

text \<open>
  C2, as stated, fails. With \<open>desiredFwhm = -1\<close> the PSF-match step of
  \<open>preprocessExposure\<close> runs and the model of width \<open>-5\<close> pixels is
  requested. If the factory accepts it, the exposure that is warped and scaled
  is the matcher's output; if the factory rejects it, the exposure is lost,
  while the same exposure passes when \<open>desiredFwhm\<close> is absent.
\<close>

theorem C2_nonpositive_fwhm_is_matched:
  "desiredFwhm (exampleCfg (Some (- 1)) False) = Some (- 1)
   \<and> preprocessExposure lenientEnv (exampleCfg (Some (- 1)) False)
        \<lparr>planes = [''calexp''], expPsf = Some examplePsf\<rparr> exampleWcs None None
     = (Inr \<lparr>planes = [''calexp'', ''psfMatched'', ''warped'', ''scaled''], expPsf = Some examplePsf\<rparr>,
        [Log INFO PsfMatchExposure, Log DEBUG (CreateDoubleGaussian (- 5) 15 15),
         Log INFO WarpExposure])
   \<and> psfMatchAttempted (snd (preprocessExposure lenientEnv (exampleCfg (Some (- 1)) False)
        \<lparr>planes = [''calexp''], expPsf = Some examplePsf\<rparr> exampleWcs None None))
   \<and> preprocessExposure exampleEnv (exampleCfg (Some (- 1)) False)
        \<lparr>planes = [''calexp''], expPsf = Some examplePsf\<rparr> exampleWcs None None
     = (Inl (External ''InvalidParameter''),
        [Log INFO PsfMatchExposure, Log DEBUG (CreateDoubleGaussian (- 5) 15 15)])
   \<and> preprocessExposure exampleEnv (exampleCfg None False)
        \<lparr>planes = [''calexp''], expPsf = Some examplePsf\<rparr> exampleWcs None None
     = (Inr \<lparr>planes = [''calexp'', ''warped'', ''scaled''], expPsf = Some examplePsf\<rparr>,
        [Log INFO WarpExposure])"
  by (simp add: run_defs example_defs psfMatchAttempted_def coreSigma_nonpos_iff
      wingSigma_nonpos_iff FWHMPerSigma_nonneg)

text \<open>
  C2, amended. In \<open>MakeCoaddTempExpTask.preprocessExposure\<close> the PSF-match step
  is entered if and only if \<open>desiredFwhm\<close> is present (not \<open>None\<close>),
  whatever its sign: only an absent value disables the step. With an absent
  value the exposure goes to the warper as it is; with a present one, once the
  model is built, it is the matcher's output that goes there. (The guard
  \<open>desFwhm > 0\<close> stands in \<open>CoaddTask.run\<close>, which never reaches it.)
\<close>

theorem C2_psf_match_iff_configured:
  "(psfMatchAttempted (snd (preprocessExposure E cfg x w mB dB)) \<longleftrightarrow> desiredFwhm cfg \<noteq> None)
   \<and> (desiredFwhm cfg = None \<longrightarrow>
        preprocessExposure E cfg x w mB dB
          = (case warpExposure E w x mB dB of
               Inl e \<Rightarrow> Inl e
             | Inr x2 \<Rightarrow> scaleExposure E x2,
             [Log INFO WarpExposure]))
   \<and> (desiredFwhm cfg = Some f \<and> pixelScale_asArcseconds w \<noteq> 0 \<and> expPsf x = Some p
        \<and> fst (makeModelPsf E (f / pixelScale_asArcseconds w) (getKernelDimensions E p)) = Inr m
       \<longrightarrow>
        fst (preprocessExposure E cfg x w mB dB)
          = (case psfMatch_run E x m of
               Inl e \<Rightarrow> Inl e
             | Inr x1 \<Rightarrow>
                 (case warpExposure E w x1 mB dB of
                    Inl e \<Rightarrow> Inl e
                  | Inr x2 \<Rightarrow> scaleExposure E x2)))"
proof (intro conjI impI)
  show "psfMatchAttempted (snd (preprocessExposure E cfg x w mB dB)) \<longleftrightarrow> desiredFwhm cfg \<noteq> None"
    by (auto simp: psfMatchAttempted_def preprocessExposure_def makeModelPsf_def Let_def
        split: option.splits sum.splits if_splits prod.splits)
next
  assume "desiredFwhm cfg = None"
  then show "preprocessExposure E cfg x w mB dB
          = (case warpExposure E w x mB dB of
               Inl e \<Rightarrow> Inl e
             | Inr x2 \<Rightarrow> scaleExposure E x2,
             [Log INFO WarpExposure])"
    by (simp add: preprocessExposure_def split: sum.splits)
next
  assume "desiredFwhm cfg = Some f \<and> pixelScale_asArcseconds w \<noteq> 0 \<and> expPsf x = Some p
        \<and> fst (makeModelPsf E (f / pixelScale_asArcseconds w) (getKernelDimensions E p)) = Inr m"
  then show "fst (preprocessExposure E cfg x w mB dB)
          = (case psfMatch_run E x m of
               Inl e \<Rightarrow> Inl e
             | Inr x1 \<Rightarrow>
                 (case warpExposure E w x1 mB dB of
                    Inl e \<Rightarrow> Inl e
                  | Inr x2 \<Rightarrow> scaleExposure E x2))"
    by (cases "makeModelPsf E (f / pixelScale_asArcseconds w) (getKernelDimensions E p)")
       (simp add: preprocessExposure_def split: sum.splits)
qed

text \<open>
  C2, amended, at an absent and at a present \<open>desiredFwhm\<close>.
\<close>

theorem C2_psf_match_iff_configured_witness:
  "desiredFwhm (exampleCfg None False) = None
   \<and> \<not> psfMatchAttempted (snd (preprocessExposure exampleEnv (exampleCfg None False)
          \<lparr>planes = [''calexp''], expPsf = Some examplePsf\<rparr> exampleWcs None None))
   \<and> preprocessExposure exampleEnv (exampleCfg None False)
        \<lparr>planes = [''calexp''], expPsf = Some examplePsf\<rparr> exampleWcs None None
       = (Inr \<lparr>planes = [''calexp'', ''warped'', ''scaled''], expPsf = Some examplePsf\<rparr>,
          [Log INFO WarpExposure])
   \<and> desiredFwhm (exampleCfg (Some 1) False) = Some 1
   \<and> pixelScale_asArcseconds exampleWcs \<noteq> 0
   \<and> fst (makeModelPsf exampleEnv (1 / pixelScale_asArcseconds exampleWcs)
            (getKernelDimensions exampleEnv examplePsf))
       = Inr exampleModelPsf
   \<and> psfMatchAttempted (snd (preprocessExposure exampleEnv (exampleCfg (Some 1) False)
          \<lparr>planes = [''calexp''], expPsf = Some examplePsf\<rparr> exampleWcs None None))
   \<and> fst (preprocessExposure exampleEnv (exampleCfg (Some 1) False)
          \<lparr>planes = [''calexp''], expPsf = Some examplePsf\<rparr> exampleWcs None None)
       = Inr \<lparr>planes = [''calexp'', ''psfMatched'', ''warped'', ''scaled''],
              expPsf = Some examplePsf\<rparr>"
proof -
  have a: "desiredFwhm (exampleCfg None False) = None"
    by (simp add: exampleCfg_def)
  have b: "desiredFwhm (exampleCfg (Some 1) False) = Some 1
     \<and> pixelScale_asArcseconds exampleWcs \<noteq> 0
     \<and> expPsf \<lparr>planes = [''calexp''], expPsf = Some examplePsf\<rparr> = Some examplePsf
     \<and> fst (makeModelPsf exampleEnv (1 / pixelScale_asArcseconds exampleWcs)
            (getKernelDimensions exampleEnv examplePsf))
       = Inr exampleModelPsf"
    by (simp add: example_defs exampleModelPsf_def makeModelPsf_def coreSigma_nonpos_iff
        wingSigma_nonpos_iff FWHMPerSigma_nonneg)
  have w1: "warpExposure exampleEnv exampleWcs
              \<lparr>planes = [''calexp''], expPsf = Some examplePsf\<rparr> None None
            = Inr \<lparr>planes = [''calexp'', ''warped''], expPsf = Some examplePsf\<rparr>"
    by (simp add: exampleEnv_def)
  have s1: "scaleExposure exampleEnv \<lparr>planes = [''calexp'', ''warped''], expPsf = Some examplePsf\<rparr>
            = Inr \<lparr>planes = [''calexp'', ''warped'', ''scaled''], expPsf = Some examplePsf\<rparr>"
    by (simp add: exampleEnv_def)
  have m1: "psfMatch_run exampleEnv \<lparr>planes = [''calexp''], expPsf = Some examplePsf\<rparr>
              exampleModelPsf
            = Inr \<lparr>planes = [''calexp'', ''psfMatched''], expPsf = Some examplePsf\<rparr>"
    by (simp add: exampleEnv_def)
  have w2: "warpExposure exampleEnv exampleWcs
              \<lparr>planes = [''calexp'', ''psfMatched''], expPsf = Some examplePsf\<rparr> None None
            = Inr \<lparr>planes = [''calexp'', ''psfMatched'', ''warped''], expPsf = Some examplePsf\<rparr>"
    by (simp add: exampleEnv_def)
  have s2: "scaleExposure exampleEnv
              \<lparr>planes = [''calexp'', ''psfMatched'', ''warped''], expPsf = Some examplePsf\<rparr>
            = Inr \<lparr>planes = [''calexp'', ''psfMatched'', ''warped'', ''scaled''],
                   expPsf = Some examplePsf\<rparr>"
    by (simp add: exampleEnv_def)
  from a C2_psf_match_iff_configured
         [of exampleEnv "exampleCfg None False"
             "\<lparr>planes = [''calexp''], expPsf = Some examplePsf\<rparr>" exampleWcs None None]
  have one: "\<not> psfMatchAttempted (snd (preprocessExposure exampleEnv (exampleCfg None False)
          \<lparr>planes = [''calexp''], expPsf = Some examplePsf\<rparr> exampleWcs None None))
   \<and> preprocessExposure exampleEnv (exampleCfg None False)
        \<lparr>planes = [''calexp''], expPsf = Some examplePsf\<rparr> exampleWcs None None
       = (Inr \<lparr>planes = [''calexp'', ''warped'', ''scaled''], expPsf = Some examplePsf\<rparr>,
          [Log INFO WarpExposure])"
    by (auto simp: w1 s1)
  from b C2_psf_match_iff_configured
         [of exampleEnv "exampleCfg (Some 1) False"
             "\<lparr>planes = [''calexp''], expPsf = Some examplePsf\<rparr>" exampleWcs None None
             1 examplePsf
             exampleModelPsf]
  have two: "psfMatchAttempted (snd (preprocessExposure exampleEnv (exampleCfg (Some 1) False)
          \<lparr>planes = [''calexp''], expPsf = Some examplePsf\<rparr> exampleWcs None None))
   \<and> fst (preprocessExposure exampleEnv (exampleCfg (Some 1) False)
          \<lparr>planes = [''calexp''], expPsf = Some examplePsf\<rparr> exampleWcs None None)
       = Inr \<lparr>planes = [''calexp'', ''psfMatched'', ''warped'', ''scaled''],
              expPsf = Some examplePsf\<rparr>"
    by (auto simp: m1 w2 s2)
  from a b one two show ?thesis by blast
qed

section \<open>C3: isolation of per-exposure failures\<close>

text \<open>
  C3, as stated, fails. The calexp of the first of two exposures exists but its
  PSF cannot be read: \<open>getCalExp\<close> raises outside the \<open>try\<close> of the loop,
  the run ends with that exception and the second exposure, which alone would
  have been processed to the end, is never looked at.
\<close>

theorem C3_load_failure_aborts:
  "run exampleEnv (exampleCfg (Some 1) False)
       (examplePatch [noPsfRef ''1'', goodRef ''2'' [''calexp'']])
     = (Inl (External ''NoResults''),
        [Log INFO (CoaddNCalexp 2),
         Log INFO (ProcessingExposure 1 2 [''visit'' \<mapsto> ''1''])])
   \<and> fst (run exampleEnv (exampleCfg (Some 1) False) (examplePatch [goodRef ''2'' [''calexp'']]))
     = Inr [\<lparr>ref_datasetType = ''deepCoadd_tempExp'',
              ref_dataId = [''visit'' \<mapsto> ''2''] ++ [''tract'' \<mapsto> ''0'', ''patch'' \<mapsto> ''1,2'']\<rparr>]"
  by (simp add: run_defs example_defs coreSigma_nonpos_iff wingSigma_nonpos_iff
      FWHMPerSigma_nonneg)

text \<open>
  C3, amended. An exposure whose calexp dataset is absent, and an exposure on
  which \<open>preprocessExposure\<close> raises an exception deriving from \<open>Exception\<close>
  (a PSF-match failure, no overlap during warping, missing calibration), is
  skipped with a warning in the log, and the loop goes on with the remaining
  exposures as if the skipped one had not been selected: same accumulated
  references, same outcome. A failure raised while the exposure or its PSF is
  read (\<open>getCalExp\<close>) is not caught: the loop ends there with that
  exception, the remaining exposures are not looked at, and the run ends with
  the outcome of its loop.
\<close>

theorem C3_skip_inside_preprocess_abort_on_load:
  "(\<not> datasetExists_calexp r \<longrightarrow>
      runLoop E cfg pRef sky numExp dpm tn ((ind, r) # rest) acc
        = (fst (runLoop E cfg pRef sky numExp dpm tn rest acc),
           Log WARN (CouldNotFindCalexp (calExp_dataId r))
             # snd (runLoop E cfg pRef sky numExp dpm tn rest acc)))
   \<and> (datasetExists_calexp r \<and> getCalExp r dpm = Inr x
        \<and> preprocessExposure E cfg x (sky_wcs sky) None (Some (sky_bbox sky)) = (Inl e, l)
        \<and> isException e \<longrightarrow>
      runLoop E cfg pRef sky numExp dpm tn ((ind, r) # rest) acc
        = (fst (runLoop E cfg pRef sky numExp dpm tn rest acc),
           Log INFO (ProcessingExposure (ind + 1) numExp (calExp_dataId r)) # l
             @ Log WARN (ErrorPreprocessing (calExp_dataId r) e)
             # snd (runLoop E cfg pRef sky numExp dpm tn rest acc)))
   \<and> (datasetExists_calexp r \<and> getCalExp r dpm = Inl e' \<longrightarrow>
      runLoop E cfg pRef sky numExp dpm tn ((ind, r) # rest) acc
        = (Inl e', [Log INFO (ProcessingExposure (ind + 1) numExp (calExp_dataId r))]))
   \<and> (getSkyInfo pRef = Inr sky
        \<and> selectExposures pRef (sky_wcs sky) (sky_bbox sky) = Inr refs \<and> refs \<noteq> [] \<longrightarrow>
      fst (run E cfg pRef)
        = fst (runLoop E cfg pRef sky (length refs) (desiredFwhm cfg \<noteq> None)
                 (coaddName cfg @ ''Coadd_tempExp'') (enumerate 0 refs) []))"
proof (intro conjI impI)
  assume "\<not> datasetExists_calexp r"
  then have "runExposure E cfg pRef sky numExp dpm tn ind r
               = (Inr None, [Log WARN (CouldNotFindCalexp (calExp_dataId r))])"
    by (simp add: runExposure_def)
  then show "runLoop E cfg pRef sky numExp dpm tn ((ind, r) # rest) acc
        = (fst (runLoop E cfg pRef sky numExp dpm tn rest acc),
           Log WARN (CouldNotFindCalexp (calExp_dataId r))
             # snd (runLoop E cfg pRef sky numExp dpm tn rest acc))"
    using runLoop_skip [of E cfg pRef sky numExp dpm tn ind r rest acc] by simp
next
  assume "datasetExists_calexp r \<and> getCalExp r dpm = Inr x
        \<and> preprocessExposure E cfg x (sky_wcs sky) None (Some (sky_bbox sky)) = (Inl e, l)
        \<and> isException e"
  then have "runExposure E cfg pRef sky numExp dpm tn ind r
               = (Inr None, Log INFO (ProcessingExposure (ind + 1) numExp (calExp_dataId r)) # l
                    @ [Log WARN (ErrorPreprocessing (calExp_dataId r) e)])"
    by (simp add: runExposure_def)
  then show "runLoop E cfg pRef sky numExp dpm tn ((ind, r) # rest) acc
        = (fst (runLoop E cfg pRef sky numExp dpm tn rest acc),
           Log INFO (ProcessingExposure (ind + 1) numExp (calExp_dataId r)) # l
             @ Log WARN (ErrorPreprocessing (calExp_dataId r) e)
             # snd (runLoop E cfg pRef sky numExp dpm tn rest acc))"
    using runLoop_skip [of E cfg pRef sky numExp dpm tn ind r rest acc] by simp
next
  assume "datasetExists_calexp r \<and> getCalExp r dpm = Inl e'"
  then have "runExposure E cfg pRef sky numExp dpm tn ind r
               = (Inl e', [Log INFO (ProcessingExposure (ind + 1) numExp (calExp_dataId r))])"
    by (simp add: runExposure_def)
  then show "runLoop E cfg pRef sky numExp dpm tn ((ind, r) # rest) acc
        = (Inl e', [Log INFO (ProcessingExposure (ind + 1) numExp (calExp_dataId r))])"
    using runLoop_abort [of E cfg pRef sky numExp dpm tn ind r e' rest acc] by simp
next
  assume "getSkyInfo pRef = Inr sky
        \<and> selectExposures pRef (sky_wcs sky) (sky_bbox sky) = Inr refs \<and> refs \<noteq> []"
  then show "fst (run E cfg pRef)
        = fst (runLoop E cfg pRef sky (length refs) (desiredFwhm cfg \<noteq> None)
                 (coaddName cfg @ ''Coadd_tempExp'') (enumerate 0 refs) [])"
    by (intro run_is_runLoop) simp_all
qed

text \<open>
  C3, amended, at an exposure without calexp, at one that does not overlap the
  patch, at one whose calexp cannot be read and at one whose PSF cannot be
  read, each of the last two followed by an exposure that would load.
\<close>

theorem C3_skip_inside_preprocess_abort_on_load_witness:
  "\<not> datasetExists_calexp (missingRef ''1'')
   \<and> runLoop exampleEnv (exampleCfg None False) (examplePatch []) exampleSky 2 False
        ''deepCoadd_tempExp'' [(0, missingRef ''1'')] []
       = (Inr [], [Log WARN (CouldNotFindCalexp [''visit'' \<mapsto> ''1''])])
   \<and> datasetExists_calexp (goodRef ''2'' [''calexp'', ''offPatch''])
   \<and> getCalExp (goodRef ''2'' [''calexp'', ''offPatch'']) False
       = Inr (exampleExposure [''calexp'', ''offPatch''])
   \<and> preprocessExposure exampleEnv (exampleCfg None False)
        (exampleExposure [''calexp'', ''offPatch'']) (sky_wcs exampleSky) None
        (Some (sky_bbox exampleSky))
       = (Inl (External ''NoOverlap''), [Log INFO WarpExposure])
   \<and> isException (External ''NoOverlap'')
   \<and> runLoop exampleEnv (exampleCfg None False) (examplePatch []) exampleSky 2 False
        ''deepCoadd_tempExp'' [(1, goodRef ''2'' [''calexp'', ''offPatch''])] []
       = (Inr [], [Log INFO (ProcessingExposure 2 2 [''visit'' \<mapsto> ''2'']),
                   Log INFO WarpExposure,
                   Log WARN (ErrorPreprocessing [''visit'' \<mapsto> ''2''] (External ''NoOverlap''))])
   \<and> datasetExists_calexp (unreadableRef ''3'')
   \<and> getCalExp (unreadableRef ''3'') False = Inl (External ''FitsError'')
   \<and> runLoop exampleEnv (exampleCfg None False) (examplePatch []) exampleSky 2 False
        ''deepCoadd_tempExp'' [(0, unreadableRef ''3''), (1, goodRef ''4'' [''calexp''])] []
       = (Inl (External ''FitsError''),
          [Log INFO (ProcessingExposure 1 2 [''visit'' \<mapsto> ''3''])])
   \<and> datasetExists_calexp (noPsfRef ''5'')
   \<and> getCalExp (noPsfRef ''5'') True = Inl (External ''NoResults'')
   \<and> runLoop exampleEnv (exampleCfg (Some 1) False) (examplePatch []) exampleSky 2 True
        ''deepCoadd_tempExp'' [(0, noPsfRef ''5''), (1, goodRef ''4'' [''calexp''])] []
       = (Inl (External ''NoResults''),
          [Log INFO (ProcessingExposure 1 2 [''visit'' \<mapsto> ''5''])])
   \<and> getSkyInfo (examplePatch [unreadableRef ''3'', goodRef ''4'' [''calexp'']]) = Inr exampleSky
   \<and> selectExposures (examplePatch [unreadableRef ''3'', goodRef ''4'' [''calexp'']])
        (sky_wcs exampleSky) (sky_bbox exampleSky)
       = Inr [unreadableRef ''3'', goodRef ''4'' [''calexp'']]
   \<and> fst (run exampleEnv (exampleCfg None False)
             (examplePatch [unreadableRef ''3'', goodRef ''4'' [''calexp'']]))
       = fst (runLoop exampleEnv (exampleCfg None False)
                (examplePatch [unreadableRef ''3'', goodRef ''4'' [''calexp'']]) exampleSky
                (length [unreadableRef ''3'', goodRef ''4'' [''calexp'']])
                (desiredFwhm (exampleCfg None False) \<noteq> None)
                (coaddName (exampleCfg None False) @ ''Coadd_tempExp'')
                (enumerate 0 [unreadableRef ''3'', goodRef ''4'' [''calexp'']]) [])"
proof -
  have a: "\<not> datasetExists_calexp (missingRef ''1'')"
    by (simp add: missingRef_def)
  have b: "datasetExists_calexp (goodRef ''2'' [''calexp'', ''offPatch''])
     \<and> getCalExp (goodRef ''2'' [''calexp'', ''offPatch'']) False
         = Inr (exampleExposure [''calexp'', ''offPatch''])
     \<and> preprocessExposure exampleEnv (exampleCfg None False)
          (exampleExposure [''calexp'', ''offPatch'']) (sky_wcs exampleSky) None
          (Some (sky_bbox exampleSky))
         = (Inl (External ''NoOverlap''), [Log INFO WarpExposure])
     \<and> isException (External ''NoOverlap'')"
    by (simp add: goodRef_def getCalExp_def preprocessExposure_def exampleCfg_def
        exampleEnv_def exampleExposure_def)
  have c: "datasetExists_calexp (unreadableRef ''3'')
     \<and> getCalExp (unreadableRef ''3'') False = Inl (External ''FitsError'')"
    by (simp add: unreadableRef_def getCalExp_def)
  have d: "datasetExists_calexp (noPsfRef ''5'')
     \<and> getCalExp (noPsfRef ''5'') True = Inl (External ''NoResults'')"
    by (simp add: noPsfRef_def getCalExp_def)
  have e: "getSkyInfo (examplePatch [unreadableRef ''3'', goodRef ''4'' [''calexp'']]) = Inr exampleSky
     \<and> selectExposures (examplePatch [unreadableRef ''3'', goodRef ''4'' [''calexp'']])
          (sky_wcs exampleSky) (sky_bbox exampleSky)
         = Inr [unreadableRef ''3'', goodRef ''4'' [''calexp'']]
     \<and> [unreadableRef ''3'', goodRef ''4'' [''calexp'']] \<noteq> []"
    by (simp add: getSkyInfo_def selectExposures_def examplePatch_def)
  from a C3_skip_inside_preprocess_abort_on_load
         [of "missingRef ''1''" exampleEnv "exampleCfg None False" "examplePatch []"
             exampleSky 2 False "''deepCoadd_tempExp''" 0 "[]" "[]"]
  have one: "runLoop exampleEnv (exampleCfg None False) (examplePatch []) exampleSky 2 False
        ''deepCoadd_tempExp'' [(0, missingRef ''1'')] []
       = (Inr [], [Log WARN (CouldNotFindCalexp [''visit'' \<mapsto> ''1''])])"
    by (simp add: missingRef_def)
  from b C3_skip_inside_preprocess_abort_on_load
         [of "goodRef ''2'' [''calexp'', ''offPatch'']" exampleEnv "exampleCfg None False"
             "examplePatch []" exampleSky 2 False "''deepCoadd_tempExp''" 1 "[]" "[]"
             "exampleExposure [''calexp'', ''offPatch'']" "External ''NoOverlap''"
             "[Log INFO WarpExposure]"]
  have two: "runLoop exampleEnv (exampleCfg None False) (examplePatch []) exampleSky 2 False
        ''deepCoadd_tempExp'' [(1, goodRef ''2'' [''calexp'', ''offPatch''])] []
       = (Inr [], [Log INFO (ProcessingExposure 2 2 [''visit'' \<mapsto> ''2'']),
                   Log INFO WarpExposure,
                   Log WARN (ErrorPreprocessing [''visit'' \<mapsto> ''2''] (External ''NoOverlap''))])"
    by (simp add: goodRef_def)
  from c C3_skip_inside_preprocess_abort_on_load
         [of "unreadableRef ''3''" exampleEnv "exampleCfg None False" "examplePatch []"
             exampleSky 2 False "''deepCoadd_tempExp''" 0 "[(1, goodRef ''4'' [''calexp''])]" "[]"
             _ _ _ "External ''FitsError''"]
  have three: "runLoop exampleEnv (exampleCfg None False) (examplePatch []) exampleSky 2 False
        ''deepCoadd_tempExp'' [(0, unreadableRef ''3''), (1, goodRef ''4'' [''calexp''])] []
       = (Inl (External ''FitsError''),
          [Log INFO (ProcessingExposure 1 2 [''visit'' \<mapsto> ''3''])])"
    by (simp add: unreadableRef_def)
  from d C3_skip_inside_preprocess_abort_on_load
         [of "noPsfRef ''5''" exampleEnv "exampleCfg (Some 1) False" "examplePatch []"
             exampleSky 2 True "''deepCoadd_tempExp''" 0 "[(1, goodRef ''4'' [''calexp''])]" "[]"
             _ _ _ "External ''NoResults''"]
  have four: "runLoop exampleEnv (exampleCfg (Some 1) False) (examplePatch []) exampleSky 2 True
        ''deepCoadd_tempExp'' [(0, noPsfRef ''5''), (1, goodRef ''4'' [''calexp''])] []
       = (Inl (External ''NoResults''),
          [Log INFO (ProcessingExposure 1 2 [''visit'' \<mapsto> ''5''])])"
    by (simp add: noPsfRef_def)
  from e C3_skip_inside_preprocess_abort_on_load
         [of _ exampleEnv "exampleCfg None False"
             "examplePatch [unreadableRef ''3'', goodRef ''4'' [''calexp'']]" exampleSky
             _ _ _ _ _ _ _ _ _ _ "[unreadableRef ''3'', goodRef ''4'' [''calexp'']]"]
  have five: "fst (run exampleEnv (exampleCfg None False)
             (examplePatch [unreadableRef ''3'', goodRef ''4'' [''calexp'']]))
       = fst (runLoop exampleEnv (exampleCfg None False)
                (examplePatch [unreadableRef ''3'', goodRef ''4'' [''calexp'']]) exampleSky
                (length [unreadableRef ''3'', goodRef ''4'' [''calexp'']])
                (desiredFwhm (exampleCfg None False) \<noteq> None)
                (coaddName (exampleCfg None False) @ ''Coadd_tempExp'')
                (enumerate 0 [unreadableRef ''3'', goodRef ''4'' [''calexp'']]) [])"
    by blast
  from a b c d e one two three four five show ?thesis by blast
qed

section \<open>C4: the zero-point rescale precedes the emit\<close>

text \<open>
  C4. Every exposure that \<open>preprocessExposure\<close> returns is the result of
  \<open>zeroPointScaler.scaleExposure\<close> on the output of the warper. In a run, a
  reference is appended to \<open>dataRefList\<close> only for an exposure on which
  \<open>preprocessExposure\<close> returned such a result, and every exposure that is
  written to the butler is a result of \<open>scaleExposure\<close>: a failure of the
  scaler is a failure of \<open>preprocessExposure\<close>, hence a skip.
  \<open>CoaddTask.run\<close>, whose loop has no rescale, hands no exposure to its
  accumulator. What the scaler does to the pixels is outside the repository.
\<close>

theorem C4_rescale_before_emit:
  "(preprocessExposure E cfg x w mB dB = (Inr y, l) \<longrightarrow>
      (\<exists>x1 x2. warpExposure E w x1 mB dB = Inr x2 \<and> scaleExposure E x2 = Inr y))
   \<and> (fst (runExposure E cfg pRef sky numExp dpm tn ind r) = Inr (Some t) \<longrightarrow>
      (\<exists>x0 y0 l0 x2. getCalExp r dpm = Inr x0
          \<and> preprocessExposure E cfg x0 (sky_wcs sky) None (Some (sky_bbox sky)) = (Inr y0, l0)
          \<and> scaleExposure E x2 = Inr y0))
   \<and> (Put n d y' \<in> set (snd (run E cfg pRef)) \<longrightarrow> (\<exists>x2. scaleExposure E x2 = Inr y'))
   \<and> snd (CoaddTask_run rest idList) = []"
proof (intro conjI impI)
  assume "preprocessExposure E cfg x w mB dB = (Inr y, l)"
  then show "\<exists>x1 x2. warpExposure E w x1 mB dB = Inr x2 \<and> scaleExposure E x2 = Inr y"
    by (rule preprocessExposure_scaled)
next
  assume "fst (runExposure E cfg pRef sky numExp dpm tn ind r) = Inr (Some t)"
  then show "\<exists>x0 y0 l0 x2. getCalExp r dpm = Inr x0
          \<and> preprocessExposure E cfg x0 (sky_wcs sky) None (Some (sky_bbox sky)) = (Inr y0, l0)
          \<and> scaleExposure E x2 = Inr y0"
    by (rule runExposure_Some_scaled)
next
  assume "Put n d y' \<in> set (snd (run E cfg pRef))"
  then show "\<exists>x2. scaleExposure E x2 = Inr y'"
    by (rule run_Put_scaled)
next
  show "snd (CoaddTask_run rest idList) = []"
    by (simp add: CoaddTask_run_def CoaddTask_run_unbound)
qed

text \<open>
  C4 at a run that writes one exposure.
\<close>

theorem C4_rescale_before_emit_witness:
  "preprocessExposure exampleEnv (exampleCfg None True) (exampleExposure [''calexp''])
      exampleWcs None None
     = (Inr (exampleExposure [''calexp'', ''warped'', ''scaled'']), [Log INFO WarpExposure])
   \<and> fst (runExposure exampleEnv (exampleCfg None True)
            (examplePatch [goodRef ''1'' [''calexp'']]) exampleSky 1 False
            ''deepCoadd_tempExp'' 0 (goodRef ''1'' [''calexp'']))
       = Inr (Some \<lparr>ref_datasetType = ''deepCoadd_tempExp'',
                     ref_dataId = [''visit'' \<mapsto> ''1'']
                                    ++ [''tract'' \<mapsto> ''0'', ''patch'' \<mapsto> ''1,2'']\<rparr>)
   \<and> Put ''deepCoadd_tempExp''
        ([''visit'' \<mapsto> ''1''] ++ [''tract'' \<mapsto> ''0'', ''patch'' \<mapsto> ''1,2''])
        (exampleExposure [''calexp'', ''warped'', ''scaled''])
       \<in> set (snd (run exampleEnv (exampleCfg None True)
                     (examplePatch [goodRef ''1'' [''calexp'']])))
   \<and> (\<exists>x1 x2. warpExposure exampleEnv exampleWcs x1 None None = Inr x2
          \<and> scaleExposure exampleEnv x2 = Inr (exampleExposure [''calexp'', ''warped'', ''scaled'']))
   \<and> (\<exists>x0 y0 l0 x2. getCalExp (goodRef ''1'' [''calexp'']) False = Inr x0
          \<and> preprocessExposure exampleEnv (exampleCfg None True) x0 (sky_wcs exampleSky) None
               (Some (sky_bbox exampleSky)) = (Inr y0, l0)
          \<and> scaleExposure exampleEnv x2 = Inr y0)"
proof -
  have a: "preprocessExposure exampleEnv (exampleCfg None True) (exampleExposure [''calexp''])
      exampleWcs None None
     = (Inr (exampleExposure [''calexp'', ''warped'', ''scaled'']), [Log INFO WarpExposure])"
    by (simp add: preprocessExposure_def exampleCfg_def exampleEnv_def exampleExposure_def)
  have b: "fst (runExposure exampleEnv (exampleCfg None True)
            (examplePatch [goodRef ''1'' [''calexp'']]) exampleSky 1 False
            ''deepCoadd_tempExp'' 0 (goodRef ''1'' [''calexp'']))
       = Inr (Some \<lparr>ref_datasetType = ''deepCoadd_tempExp'',
                     ref_dataId = [''visit'' \<mapsto> ''1'']
                                    ++ [''tract'' \<mapsto> ''0'', ''patch'' \<mapsto> ''1,2'']\<rparr>)"
    by (simp add: run_defs example_defs)
  have c: "Put ''deepCoadd_tempExp''
        ([''visit'' \<mapsto> ''1''] ++ [''tract'' \<mapsto> ''0'', ''patch'' \<mapsto> ''1,2''])
        (exampleExposure [''calexp'', ''warped'', ''scaled''])
       \<in> set (snd (run exampleEnv (exampleCfg None True)
                     (examplePatch [goodRef ''1'' [''calexp'']])))"
    by (simp add: run_defs example_defs)
  from a b c C4_rescale_before_emit
    [of exampleEnv "exampleCfg None True" "exampleExposure [''calexp'']" exampleWcs None None
        "exampleExposure [''calexp'', ''warped'', ''scaled'']" "[Log INFO WarpExposure]"
        "examplePatch [goodRef ''1'' [''calexp'']]" exampleSky 1 False "''deepCoadd_tempExp''" 0
        "goodRef ''1'' [''calexp'']"
        "\<lparr>ref_datasetType = ''deepCoadd_tempExp'',
          ref_dataId = [''visit'' \<mapsto> ''1''] ++ [''tract'' \<mapsto> ''0'', ''patch'' \<mapsto> ''1,2'']\<rparr>"
        "''deepCoadd_tempExp''"
        "[''visit'' \<mapsto> ''1''] ++ [''tract'' \<mapsto> ''0'', ''patch'' \<mapsto> ''1,2'']"
        "exampleExposure [''calexp'', ''warped'', ''scaled'']"]
  show ?thesis by blast
qed

section \<open>C5: invalid parameters of the PSF model builder\<close>

text \<open>
  C5, as stated, fails. The factory rejects the non-positive width with
  \<open>InvalidParameter\<close>, and so does \<open>makeModelPsf\<close>; in a run with
  \<open>desiredFwhm = -1\<close> that error is raised inside \<open>preprocessExposure\<close>,
  caught by \<open>except Exception\<close> and turned into a skip: the run returns
  normally.
\<close>

theorem C5_invalid_parameter_is_skipped:
  "fst (makeModelPsf exampleEnv (- 5) (15, 15)) = Inl (External ''InvalidParameter'')
   \<and> run exampleEnv (exampleCfg (Some (- 1)) False) (examplePatch [goodRef ''1'' [''calexp'']])
     = (Inr [],
        [Log INFO (CoaddNCalexp 1),
         Log INFO (ProcessingExposure 1 1 [''visit'' \<mapsto> ''1'']),
         Log INFO PsfMatchExposure,
         Log DEBUG (CreateDoubleGaussian (- 5) 15 15),
         Log WARN (ErrorPreprocessing [''visit'' \<mapsto> ''1''] (External ''InvalidParameter''))])"
  by (simp add: run_defs example_defs coreSigma_nonpos_iff wingSigma_nonpos_iff
      FWHMPerSigma_nonneg)

text \<open>
  C5, amended. The PSF model builder checks nothing itself: it fails exactly
  when the PSF factory rejects the arguments, and then with the factory's
  error. When the builder is called for an exposure of a run, its failure
  (any \<open>Exception\<close>) is converted into the skip of that exposure, with a
  warning; it does not propagate to the caller of the run.
\<close>

theorem C5_builder_failure_is_the_factorys_and_is_skipped:
  "(fst (makeModelPsf E fwhmPixels kernelDim) = Inl e \<longleftrightarrow>
      createPsf E \<lparr>psfName = ''DoubleGaussian'',
                   psfWidth = fst kernelDim, psfHeight = snd kernelDim,
                   sigma1 = fwhmPixels / FWHMPerSigma,
                   sigma2 = fwhmPixels / FWHMPerSigma * 2.5, ampl2 = 0.1\<rparr> = Inl e)
   \<and> (desiredFwhm cfg = Some f \<and> pixelScale_asArcseconds (sky_wcs sky) \<noteq> 0
        \<and> datasetExists_calexp r \<and> get_calexp r = Inr x \<and> get_psf r = Inr p
        \<and> fst (makeModelPsf E (f / pixelScale_asArcseconds (sky_wcs sky))
                  (getKernelDimensions E p)) = Inl e'
        \<and> isException e' \<longrightarrow>
      fst (runExposure E cfg pRef sky numExp True tn ind r) = Inr None
      \<and> last (snd (runExposure E cfg pRef sky numExp True tn ind r))
          = Log WARN (ErrorPreprocessing (calExp_dataId r) e'))"
proof (intro conjI impI)
  show "fst (makeModelPsf E fwhmPixels kernelDim) = Inl e \<longleftrightarrow>
      createPsf E \<lparr>psfName = ''DoubleGaussian'',
                   psfWidth = fst kernelDim, psfHeight = snd kernelDim,
                   sigma1 = fwhmPixels / FWHMPerSigma,
                   sigma2 = fwhmPixels / FWHMPerSigma * 2.5, ampl2 = 0.1\<rparr> = Inl e"
    unfolding makeModelPsf_def Let_def fst_conv ..
next
  assume h: "desiredFwhm cfg = Some f \<and> pixelScale_asArcseconds (sky_wcs sky) \<noteq> 0
        \<and> datasetExists_calexp r \<and> get_calexp r = Inr x \<and> get_psf r = Inr p
        \<and> fst (makeModelPsf E (f / pixelScale_asArcseconds (sky_wcs sky))
                  (getKernelDimensions E p)) = Inl e'
        \<and> isException e'"
  then have load: "getCalExp r True = Inr (x\<lparr>expPsf := Some p\<rparr>)"
    by (simp add: getCalExp_def)
  from h have "preprocessExposure E cfg (x\<lparr>expPsf := Some p\<rparr>) (sky_wcs sky) None
                 (Some (sky_bbox sky))
               = (Inl e', Log INFO PsfMatchExposure
                    # snd (makeModelPsf E (f / pixelScale_asArcseconds (sky_wcs sky))
                            (getKernelDimensions E p)))"
    by (intro preprocessExposure_model_failure) simp_all
  with h load have body: "runExposure E cfg pRef sky numExp True tn ind r
      = (Inr None,
         Log INFO (ProcessingExposure (ind + 1) numExp (calExp_dataId r))
           # (Log INFO PsfMatchExposure
                # snd (makeModelPsf E (f / pixelScale_asArcseconds (sky_wcs sky))
                        (getKernelDimensions E p)))
           @ [Log WARN (ErrorPreprocessing (calExp_dataId r) e')])"
    by (simp add: runExposure_def)
  then show "fst (runExposure E cfg pRef sky numExp True tn ind r) = Inr None"
    by simp
  from body show "last (snd (runExposure E cfg pRef sky numExp True tn ind r))
          = Log WARN (ErrorPreprocessing (calExp_dataId r) e')"
    by simp
qed

text \<open>
  C5, amended, at a desired FWHM of \<open>-1\<close>.
\<close>

theorem C5_builder_failure_witness:
  "desiredFwhm (exampleCfg (Some (- 1)) False) = Some (- 1)
   \<and> pixelScale_asArcseconds (sky_wcs exampleSky) \<noteq> 0
   \<and> datasetExists_calexp (goodRef ''1'' [''calexp''])
   \<and> get_calexp (goodRef ''1'' [''calexp'']) = Inr (exampleExposure [''calexp''])
   \<and> get_psf (goodRef ''1'' [''calexp'']) = Inr examplePsf
   \<and> fst (makeModelPsf exampleEnv (- 1 / pixelScale_asArcseconds (sky_wcs exampleSky))
             (getKernelDimensions exampleEnv examplePsf)) = Inl (External ''InvalidParameter'')
   \<and> isException (External ''InvalidParameter'')
   \<and> fst (runExposure exampleEnv (exampleCfg (Some (- 1)) False) (examplePatch []) exampleSky
             1 True ''deepCoadd_tempExp'' 0 (goodRef ''1'' [''calexp''])) = Inr None
   \<and> last (snd (runExposure exampleEnv (exampleCfg (Some (- 1)) False) (examplePatch [])
             exampleSky 1 True ''deepCoadd_tempExp'' 0 (goodRef ''1'' [''calexp''])))
       = Log WARN (ErrorPreprocessing (calExp_dataId (goodRef ''1'' [''calexp'']))
                     (External ''InvalidParameter''))"
proof -
  have h: "desiredFwhm (exampleCfg (Some (- 1)) False) = Some (- 1)
   \<and> pixelScale_asArcseconds (sky_wcs exampleSky) \<noteq> 0
   \<and> datasetExists_calexp (goodRef ''1'' [''calexp''])
   \<and> get_calexp (goodRef ''1'' [''calexp'']) = Inr (exampleExposure [''calexp''])
   \<and> get_psf (goodRef ''1'' [''calexp'']) = Inr examplePsf
   \<and> fst (makeModelPsf exampleEnv (- 1 / pixelScale_asArcseconds (sky_wcs exampleSky))
             (getKernelDimensions exampleEnv examplePsf)) = Inl (External ''InvalidParameter'')
   \<and> isException (External ''InvalidParameter'')"
    by (simp add: example_defs makeModelPsf_def coreSigma_nonpos_iff wingSigma_nonpos_iff
        FWHMPerSigma_nonneg)
  from h C5_builder_failure_is_the_factorys_and_is_skipped
    [of exampleEnv _ _ _ "exampleCfg (Some (- 1)) False" "- 1" exampleSky
        "goodRef ''1'' [''calexp'']" "exampleExposure [''calexp'']" examplePsf
        "External ''InvalidParameter''" "examplePatch []" 1 "''deepCoadd_tempExp''" 0]
  show ?thesis by blast
qed

section \<open>C6: the primary flag\<close>



section \<open>C7: deblending configured, child count absent\<close>

text \<open>
  C7. When the configuration says that deblending was done and
  \<open>deblend_nChild\<close> is absent from the schema, \<open>setIsPrimaryFlag\<close> raises
  the \<open>RuntimeError\<close> of line 169 (the spec's \<open>SchemaInconsistency\<close>) before
  it touches any source, and \<open>ProcessCoaddTask.run\<close> ends with that error.
\<close>

theorem C7_missing_nChild_is_fatal:
  assumes "doDeblend cfg" and "nChildKeyName \<notin> set sch"
  shows "setIsPrimaryFlag cfg sch sources sky
           = Inl (RuntimeError ''Ran the deblender but cannot find 'deblend_nChild' in the source table'')
         \<and> ProcessCoaddTask_run cfg sch (Inr sky) (Inr (Some sources)) propagateR
           = Inl (RuntimeError ''Ran the deblender but cannot find 'deblend_nChild' in the source table'')"
  using assms
  by (simp add: ProcessCoaddTask_run_def setIsPrimaryFlag_def find_nChildKey_def schema_find_def)

text \<open>
  C7 at a schema without the child count.
\<close>

theorem C7_witness:
  "doDeblend \<lparr>doDeblend = True\<rparr> \<and> nChildKeyName \<notin> set plainSchema
   \<and> setIsPrimaryFlag \<lparr>doDeblend = True\<rparr> plainSchema [exampleSource False (5, 5) 3 0 False] exampleSkyInfo
       = Inl (RuntimeError ''Ran the deblender but cannot find 'deblend_nChild' in the source table'')"
proof -
  have a: "doDeblend \<lparr>doDeblend = True\<rparr>" by simp
  have b: "nChildKeyName \<notin> set plainSchema" by (simp add: nChildKeyName_def plainSchema_def)
  from C7_missing_nChild_is_fatal [OF a b] a b show ?thesis by blast
qed

section \<open>C9: sources with an unknown centroid\<close>

text \<open>
  C9. A source whose centroid is flagged as unknown comes out of the
  classifier as it went in: none of the three flags is written, so flags that
  are false stay false, and no later step is done for it.
\<close>

theorem C9_unknown_centroid_left_alone:
  assumes "setIsPrimaryFlag cfg sch sources sky = Inr out"
    and "i < length sources"
    and "centroidFlag (sources ! i)"
  shows "out ! i = sources ! i \<and>
         (\<not> flag (sources ! i) isPatchInnerKey \<and> \<not> flag (sources ! i) isTractInnerKey
            \<and> \<not> flag (sources ! i) isPrimaryKey \<longrightarrow>
          \<not> flag (out ! i) isPatchInnerKey \<and> \<not> flag (out ! i) isTractInnerKey
            \<and> \<not> flag (out ! i) isPrimaryKey)"
proof -
  have "out ! i = classifySource (if nChildKeyName \<in> set sch then Some nChildKeyName else None) sky (sources ! i)"
    using setIsPrimaryFlag_Inr [OF assms(1)] assms(2) by simp
  with assms(3) have "out ! i = sources ! i"
    by (simp add: classifySource_def)
  then show ?thesis by simp
qed

text \<open>
  C9 at a source with an unknown centroid and no flag set.
\<close>

theorem C9_unknown_centroid_witness:
  "setIsPrimaryFlag \<lparr>doDeblend = True\<rparr> deblendSchema
       [exampleSource True (5, 5) 3 0 False] exampleSkyInfo
     = Inr [exampleSource True (5, 5) 3 0 False]
   \<and> (0::nat) < length [exampleSource True (5, 5) 3 0 False]
   \<and> centroidFlag ([exampleSource True (5, 5) 3 0 False] ! 0)
   \<and> \<not> flag ([exampleSource True (5, 5) 3 0 False] ! 0) isPatchInnerKey
   \<and> \<not> flag ([exampleSource True (5, 5) 3 0 False] ! 0) isTractInnerKey
   \<and> \<not> flag ([exampleSource True (5, 5) 3 0 False] ! 0) isPrimaryKey"
proof -
  have a: "setIsPrimaryFlag \<lparr>doDeblend = True\<rparr> deblendSchema
       [exampleSource True (5, 5) 3 0 False] exampleSkyInfo
     = Inr [exampleSource True (5, 5) 3 0 False]"
    by (simp add: setIsPrimaryFlag_def find_nChildKey_def schema_find_def deblendSchema_def
        nChildKeyName_def classifySource_def exampleSource_def)
  have b: "(0::nat) < length [exampleSource True (5, 5) 3 0 False]" by simp
  have c: "centroidFlag ([exampleSource True (5, 5) 3 0 False] ! 0)"
    by (simp add: exampleSource_def)
  have d: "\<not> flag ([exampleSource True (5, 5) 3 0 False] ! 0) isPatchInnerKey
     \<and> \<not> flag ([exampleSource True (5, 5) 3 0 False] ! 0) isTractInnerKey
     \<and> \<not> flag ([exampleSource True (5, 5) 3 0 False] ! 0) isPrimaryKey"
    by (simp add: exampleSource_def)
  from C9_unknown_centroid_left_alone [OF a b c] a b c d show ?thesis by blast
qed

section \<open>C10: CoaddTask cannot execute\<close>

text \<open>
  C10. Unless \<open>pipeBase.Task\<close> provides an attribute \<open>pipeBase\<close>, the
  constructor of \<open>CoaddTask\<close> raises \<open>AttributeError\<close> before anything
  else. \<open>run\<close> has no parameter \<open>self\<close>, and \<open>pexLog\<close> and \<open>policy\<close>
  resolve to nothing; every call of \<open>run\<close> raises, \<open>RuntimeError\<close> on an
  empty list and \<open>NameError\<close> on the logging line otherwise, and hands no
  exposure to a coadd.
\<close>

theorem C10_CoaddTask_never_executes:
  "(''pipeBase'' \<notin> set taskAttrs \<longrightarrow>
      CoaddTask_init taskAttrs restInit = Inl (AttributeError ''pipeBase''))
   \<and> ''self'' \<notin> set CoaddTask_run_locals
   \<and> \<not> resolves CoaddTask_run_locals coadd_globals ''pexLog''
   \<and> \<not> resolves CoaddTask_run_locals coadd_globals ''policy''
   \<and> CoaddTask_run rest idList
       = (if idList = [] then Inl (RuntimeError ''No exposures to coadd!'')
          else Inl (NameError ''self''), [])"
  by (cases idList)
     (simp_all add: CoaddTask_init_def CoaddTask_attrs_def CoaddTask_run_def
       CoaddTask_run_unbound, simp_all add: CoaddTask_run_locals_def)

text \<open>
  C10 at a base class with the usual task attributes and at a list of two
  identifiers.
\<close>

theorem C10_CoaddTask_never_executes_witness:
  "''pipeBase'' \<notin> set [''log'', ''config'', ''metadata'', ''makeSubtask'', ''timer'']
   \<and> CoaddTask_init [''log'', ''config'', ''metadata'', ''makeSubtask'', ''timer'']
        (Inr ()) = Inl (AttributeError ''pipeBase'')
   \<and> CoaddTask_run (Inr (), [exampleExposure [''calexp'']]) [''visit 1'', ''visit 2'']
       = (Inl (NameError ''self''), [])"
  using C10_CoaddTask_never_executes
    [of "[''log'', ''config'', ''metadata'', ''makeSubtask'', ''timer'']" "Inr ()"
        "(Inr (), [exampleExposure [''calexp'']])" "[''visit 1'', ''visit 2'']"]
  by simp

end
